theory Spec2Isabelle
  imports Main
begin

section \<open>The stream route of routes/stream.js\<close>

text \<open>
  The file \<^verbatim>\<open>routes/stream.js\<close> registers one handler, for
  \<^verbatim>\<open>GET /stream/:streams\<close>. The handler validates the request, increments
  the connection counters, registers a handler for the response's \<^verbatim>\<open>close\<close>
  event and hands the request to \<^verbatim>\<open>kafkaSse\<close>. The model below follows the
  handler block by block. Strings are lists of 8-bit characters, read as code units; a
  thrown \<^verbatim>\<open>HTTPError\<close> is the left summand of the result; the interval counter is
  passed in and returned.
\<close>

subsection \<open>Library functions of the language\<close>

text \<open>
  \<^verbatim>\<open>String.prototype.split\<close> with a one-character separator: the pieces between
  the separators, so the result is never empty (\<^verbatim>\<open>''.split(',')\<close> is
  \<^verbatim>\<open>['']\<close>).
\<close>

fun split :: "string \<Rightarrow> char \<Rightarrow> string list" where
  "split [] sep = [[]]"
| "split (c # cs) sep =
     (if c = sep then [] # split cs sep
      else (case split cs sep of
              [] \<Rightarrow> [[c]]
            | w # ws \<Rightarrow> (c # w) # ws))"

text \<open>\<^verbatim>\<open>Array.prototype.join\<close>.\<close>

fun join :: "string list \<Rightarrow> string \<Rightarrow> string" where
  "join [] sep = []"
| "join [x] sep = x"
| "join (x # y # ys) sep = x @ sep @ join (y # ys) sep"

text \<open>\<^verbatim>\<open>String.prototype.startsWith\<close>.\<close>

definition startsWith :: "string \<Rightarrow> string \<Rightarrow> bool" where
  "startsWith s p = (take (length p) s = p)"

subsubsection \<open>isNaN on a string\<close>

text \<open>
  \<^verbatim>\<open>isNaN(s)\<close> converts the string to a number first. The conversion trims white
  space and line terminators, gives 0 for what is left when that is empty, and gives NaN
  unless the rest is a signed decimal literal (digits with an optional fraction and
  exponent, or \<^verbatim>\<open>Infinity\<close>) or an unsigned binary, octal or hexadecimal integer
  literal. Only whether the result is NaN matters to the handler.
\<close>

definition isWhiteSpace :: "char \<Rightarrow> bool" where
  "isWhiteSpace c = (of_char c \<in> {9, 10, 11, 12, 13, 32, 160 :: nat})"

definition isDecimalDigit :: "char \<Rightarrow> bool" where
  "isDecimalDigit c = (c \<in> set ''0123456789'')"

definition trim :: "string \<Rightarrow> string" where
  "trim s = rev (dropWhile isWhiteSpace (rev (dropWhile isWhiteSpace s)))"

definition dropSign :: "string \<Rightarrow> string" where
  "dropSign s = (case s of
       [] \<Rightarrow> []
     | c # cs \<Rightarrow> if c = CHR ''+'' \<or> c = CHR ''-'' then cs else s)"

definition isDecimalDigits :: "string \<Rightarrow> bool" where
  "isDecimalDigits s = (s \<noteq> [] \<and> list_all isDecimalDigit s)"

definition isExponentPart :: "string \<Rightarrow> bool" where
  "isExponentPart s = (case s of
       [] \<Rightarrow> False
     | c # cs \<Rightarrow> (c = CHR ''e'' \<or> c = CHR ''E'') \<and> isDecimalDigits (dropSign cs))"

definition isUnsignedDecimalLiteral :: "string \<Rightarrow> bool" where
  "isUnsignedDecimalLiteral s =
     (let ip = takeWhile isDecimalDigit s; r = dropWhile isDecimalDigit s
      in case r of
           [] \<Rightarrow> ip \<noteq> []
         | c # cs \<Rightarrow>
             if c = CHR ''.''
             then (let fp = takeWhile isDecimalDigit cs; e = dropWhile isDecimalDigit cs
                   in (ip \<noteq> [] \<or> fp \<noteq> []) \<and> (e = [] \<or> isExponentPart e))
             else ip \<noteq> [] \<and> isExponentPart r)"

definition isStrDecimalLiteral :: "string \<Rightarrow> bool" where
  "isStrDecimalLiteral s =
     (dropSign s = ''Infinity'' \<or> isUnsignedDecimalLiteral (dropSign s))"

definition isNonDecimalIntegerLiteral :: "string \<Rightarrow> bool" where
  "isNonDecimalIntegerLiteral s = (case s of
       z # x # ds \<Rightarrow>
         z = CHR ''0'' \<and> ds \<noteq> [] \<and>
         (if x = CHR ''b'' \<or> x = CHR ''B'' then list_all (\<lambda>d. d \<in> set ''01'') ds
          else if x = CHR ''o'' \<or> x = CHR ''O'' then list_all (\<lambda>d. d \<in> set ''01234567'') ds
          else if x = CHR ''x'' \<or> x = CHR ''X''
            then list_all (\<lambda>d. d \<in> set ''0123456789abcdefABCDEF'') ds
          else False)
     | _ \<Rightarrow> False)"

definition isNaN_string :: "string \<Rightarrow> bool" where
  "isNaN_string s =
     (let t = trim s
      in \<not> (t = [] \<or> isStrDecimalLiteral t \<or> isNonDecimalIntegerLiteral t))"

subsubsection \<open>Date.parse\<close>

text \<open>
  \<^verbatim>\<open>Date.parse\<close> is part of the language run time. The language fixes its result
  on the date-time string format \<^verbatim>\<open>YYYY-MM-DDTHH:mm:ss.sssZ\<close> and leaves every
  other string to the implementation. \<open>isoTimeValue\<close> is the fixed part: the date-only
  forms (read as UTC) and the date-time forms that carry \<^verbatim>\<open>Z\<close> or an offset,
  with every field in its range. For every other string (a date-time form with no offset,
  which is local time, a field out of range, any other format) the answer of the engine
  is the parameter \<open>impl\<close>; \<open>None\<close> stands for NaN.
\<close>

definition digitValue :: "char \<Rightarrow> int" where
  "digitValue c = int (of_char c) - 48"

definition decimalValue :: "string \<Rightarrow> int" where
  "decimalValue s = foldl (\<lambda>n c. 10 * n + digitValue c) 0 s"

definition isDigitsOfLength :: "nat \<Rightarrow> string \<Rightarrow> bool" where
  "isDigitsOfLength n s = (length s = n \<and> list_all isDecimalDigit s)"

definition InLeapYear :: "int \<Rightarrow> bool" where
  "InLeapYear y = (y mod 4 = 0 \<and> (y mod 100 \<noteq> 0 \<or> y mod 400 = 0))"

definition DayFromYear :: "int \<Rightarrow> int" where
  "DayFromYear y =
     365 * (y - 1970) + (y - 1969) div 4 - (y - 1901) div 100 + (y - 1601) div 400"

definition DaysInMonth :: "int \<Rightarrow> int \<Rightarrow> int" where
  "DaysInMonth y m =
     (if m = 2 then (if InLeapYear y then 29 else 28)
      else if m = 4 \<or> m = 6 \<or> m = 9 \<or> m = 11 then 30
      else 31)"

definition MakeDay :: "int \<Rightarrow> int \<Rightarrow> int \<Rightarrow> int" where
  "MakeDay y m d =
     DayFromYear y + sum_list (map (DaysInMonth y) [1..m - 1]) + d - 1"

definition MakeTime :: "int \<Rightarrow> int \<Rightarrow> int \<Rightarrow> int \<Rightarrow> int" where
  "MakeTime h mi sec ms = ((h * 60 + mi) * 60 + sec) * 1000 + ms"

definition MakeDate :: "int \<Rightarrow> int \<Rightarrow> int" where
  "MakeDate day time = day * 86400000 + time"

text \<open>The day number of a date \<^verbatim>\<open>YYYY\<close>, \<^verbatim>\<open>YYYY-MM\<close> or \<^verbatim>\<open>YYYY-MM-DD\<close>.\<close>

definition isoDate :: "string \<Rightarrow> int option" where
  "isoDate s =
     (let y = take 4 s; m = take 2 (drop 5 s); d = take 2 (drop 8 s);
          mv = (if length s = 4 then 1 else decimalValue m);
          dv = (if length s \<le> 7 then 1 else decimalValue d)
      in if (length s = 4 \<or> length s = 7 \<or> length s = 10)
            \<and> isDigitsOfLength 4 y
            \<and> (length s = 4 \<or> take 1 (drop 4 s) = ''-'' \<and> isDigitsOfLength 2 m)
            \<and> (length s \<le> 7 \<or> take 1 (drop 7 s) = ''-'' \<and> isDigitsOfLength 2 d)
            \<and> 1 \<le> mv \<and> mv \<le> 12 \<and> 1 \<le> dv \<and> dv \<le> DaysInMonth (decimalValue y) mv
         then Some (MakeDay (decimalValue y) mv dv)
         else None)"

text \<open>
  The milliseconds of a time of day \<^verbatim>\<open>HH:mm\<close>, \<^verbatim>\<open>HH:mm:ss\<close> or
  \<^verbatim>\<open>HH:mm:ss.sss\<close>.
\<close>

definition isoTime :: "string \<Rightarrow> int option" where
  "isoTime s =
     (let h = take 2 s; mi = take 2 (drop 3 s); sec = take 2 (drop 6 s); ms = drop 9 s;
          sv = (if length s = 5 then 0 else decimalValue sec);
          msv = (if length s \<le> 8 then 0 else decimalValue ms)
      in if (length s = 5 \<or> length s = 8 \<or> length s = 12)
            \<and> isDigitsOfLength 2 h \<and> take 1 (drop 2 s) = '':'' \<and> isDigitsOfLength 2 mi
            \<and> (length s = 5 \<or> take 1 (drop 5 s) = '':'' \<and> isDigitsOfLength 2 sec)
            \<and> (length s \<le> 8 \<or> take 1 (drop 8 s) = ''.'' \<and> isDigitsOfLength 3 ms)
            \<and> decimalValue h \<le> 23 \<and> decimalValue mi \<le> 59 \<and> sv \<le> 59
         then Some (MakeTime (decimalValue h) (decimalValue mi) sv msv)
         else None)"

text \<open>The milliseconds of an offset \<^verbatim>\<open>Z\<close>, \<^verbatim>\<open>+HH:mm\<close> or \<^verbatim>\<open>-HH:mm\<close>.\<close>

definition isoOffset :: "string \<Rightarrow> int option" where
  "isoOffset s =
     (if s = ''Z'' then Some 0
      else (let h = take 2 (drop 1 s); mi = drop 4 s
            in if length s = 6 \<and> (take 1 s = ''+'' \<or> take 1 s = ''-'')
                  \<and> isDigitsOfLength 2 h \<and> take 1 (drop 3 s) = '':'' \<and> isDigitsOfLength 2 mi
                  \<and> decimalValue h \<le> 23 \<and> decimalValue mi \<le> 59
               then Some ((if take 1 s = ''-'' then - 1 else 1)
                          * MakeTime (decimalValue h) (decimalValue mi) 0 0)
               else None))"

definition isOffsetStart :: "char \<Rightarrow> bool" where
  "isOffsetStart c = (c = CHR ''Z'' \<or> c = CHR ''+'' \<or> c = CHR ''-'')"

definition isoTimeValue :: "string \<Rightarrow> int option" where
  "isoTimeValue s =
     (let d = takeWhile (\<lambda>c. c \<noteq> CHR ''T'') s; r = dropWhile (\<lambda>c. c \<noteq> CHR ''T'') s
      in case r of
           [] \<Rightarrow> map_option (\<lambda>day. MakeDate day 0) (isoDate d)
         | _ # tz \<Rightarrow>
             (let t = takeWhile (\<lambda>c. \<not> isOffsetStart c) tz;
                  z = dropWhile (\<lambda>c. \<not> isOffsetStart c) tz
              in case (isoDate d, isoTime t, isoOffset z) of
                   (Some day, Some time, Some off) \<Rightarrow> Some (MakeDate day time - off)
                 | _ \<Rightarrow> None))"

definition Date_parse :: "(string \<Rightarrow> int option) \<Rightarrow> string \<Rightarrow> int option" where
  "Date_parse impl s = (case isoTimeValue s of Some t \<Rightarrow> Some t | None \<Rightarrow> impl s)"

subsubsection \<open>The in operator\<close>

text \<open>
  \<^verbatim>\<open>name in obj\<close> holds for the object's own properties and for the properties it
  inherits. The stream catalog \<^verbatim>\<open>app.conf.streams\<close> is an ordinary object (it is
  read from the service's configuration), so it inherits the properties of
  \<^verbatim>\<open>Object.prototype\<close>. None of those has a property \<^verbatim>\<open>topics\<close>.
\<close>

definition Object_prototype :: "string list" where
  "Object_prototype =
     [''constructor'', ''hasOwnProperty'', ''isPrototypeOf'', ''propertyIsEnumerable'',
      ''toLocaleString'', ''toString'', ''valueOf'', ''__proto__'',
      ''__defineGetter__'', ''__defineSetter__'', ''__lookupGetter__'', ''__lookupSetter__'']"

definition js_in :: "string \<Rightarrow> (string \<rightharpoonup> 'a) \<Rightarrow> bool" where
  "js_in name obj = (obj name \<noteq> None \<or> name \<in> set Object_prototype)"

subsection \<open>Data\<close>

text \<open>
  The configuration the handler reads: \<^verbatim>\<open>app.conf.worker_id\<close>,
  \<^verbatim>\<open>app.conf.client_ip_connection_limit\<close> (absent, or a number) and
  \<^verbatim>\<open>app.conf.streams\<close>, whose entries carry the list \<^verbatim>\<open>topics\<close>.
  \<open>hostname\<close> is the value of \<^verbatim>\<open>os.hostname()\<close>.
\<close>

record stream_conf =
  topics :: "string list"

record conf =
  worker_id :: string
  client_ip_connection_limit :: "int option"
  conf_streams :: "string \<rightharpoonup> stream_conf"

record app =
  hostname :: string
  conf :: conf

text \<open>
  The request: \<^verbatim>\<open>req.headers\<close> (names in lower case, as the HTTP library
  delivers them), \<^verbatim>\<open>req.params.streams\<close> and \<^verbatim>\<open>req.query.since\<close>.
\<close>

record request =
  headers :: "string \<rightharpoonup> string"
  params_streams :: string
  query_since :: "string option"

record HTTPError =
  status :: nat
  type :: string
  title :: string
  detail :: string

text \<open>
  What the handler can throw: an \<^verbatim>\<open>HTTPError\<close>, or the TypeError of reading
  \<^verbatim>\<open>topics\<close> of \<^verbatim>\<open>undefined\<close>.
\<close>

datatype thrown = Thrown HTTPError | TypeError

text \<open>
  The values the handler passes on: the elements of the array \<^verbatim>\<open>topics\<close>
  (configured topic names, or \<^verbatim>\<open>undefined\<close>) and \<^verbatim>\<open>atTimestamp\<close>
  (\<^verbatim>\<open>undefined\<close>, the string of the query, or the number \<^verbatim>\<open>Date.parse\<close>
  returned).
\<close>

datatype js_number = NaN | Finite int

datatype js_value = JsUndefined | JsString string | JsNumber js_number

text \<open>
  The call \<^verbatim>\<open>kafkaSse(req, res, topics, options, atTimestamp)\<close>. The options
  \<^verbatim>\<open>logger\<close>, \<^verbatim>\<open>kafkaConfig\<close> and \<^verbatim>\<open>deserializer\<close> are handed
  through from outside the handler and are left out.
\<close>

record kafkaSse_call =
  sse_topics :: "js_value list"
  allowedTopics :: "js_value list"
  useTimestampForId :: bool
  sse_headers :: "string \<rightharpoonup> string"
  disableSSEFormatting :: bool
  atTimestamp :: js_value

text \<open>
  An admitted connection: the call of \<^verbatim>\<open>kafkaSse\<close>, and the two variables the
  handler of the \<^verbatim>\<open>close\<close> event closes over.
\<close>

record admitted =
  handoff :: kafkaSse_call
  close_streams :: "string list"
  close_clientConnectionMetric :: "string option"

subsection \<open>The interval counter\<close>

text \<open>
  Modelled from the spec: the class \<^verbatim>\<open>IntervalCounter\<close> of
  \<^verbatim>\<open>lib/eventstreams-util\<close> is not among the sources. The spec gives its state as
  a mapping from keys to integers that are never negative. The periodic flush reads the
  counts and does not change them, so it has no part in the model.
\<close>

type_synonym intervalCounter = "string \<rightharpoonup> nat"

text \<open>
  Modelled from the spec: \<^verbatim>\<open>IntervalCounter.get\<close> is not among the sources; it
  returns the current count, or 0 if the key has never been touched.
\<close>

definition get :: "intervalCounter \<Rightarrow> string \<Rightarrow> nat" where
  "get ic key = (case ic key of None \<Rightarrow> 0 | Some n \<Rightarrow> n)"

text \<open>
  Modelled from the spec: \<^verbatim>\<open>IntervalCounter.increment\<close> is not among the
  sources; it adds 1 to the count for the key, creating the entry at 0 first if absent.
\<close>

definition increment :: "intervalCounter \<Rightarrow> string \<Rightarrow> intervalCounter" where
  "increment ic key = ic(key \<mapsto> get ic key + 1)"

text \<open>
  Modelled from the spec: \<^verbatim>\<open>IntervalCounter.decrement\<close> is not among the
  sources; it subtracts 1 from the count for the key, never fails, and clamps at 0.
\<close>

definition decrement :: "intervalCounter \<Rightarrow> string \<Rightarrow> intervalCounter" where
  "decrement ic key = ic(key \<mapsto> (if get ic key = 0 then 0 else get ic key - 1))"

text \<open>
  The calls the handler makes on the counter, as data: the handler's loops build the
  list of calls, and \<open>perform\<close> runs one call.
\<close>

datatype counter_call = Increment string | Decrement string

fun perform :: "intervalCounter \<Rightarrow> counter_call \<Rightarrow> intervalCounter" where
  "perform ic (Increment key) = increment ic key"
| "perform ic (Decrement key) = decrement ic key"

fun incremented :: "counter_call list \<Rightarrow> string list" where
  "incremented [] = []"
| "incremented (Increment key # cs) = key # incremented cs"
| "incremented (Decrement key # cs) = incremented cs"

fun decremented :: "counter_call list \<Rightarrow> string list" where
  "decremented [] = []"
| "decremented (Increment key # cs) = decremented cs"
| "decremented (Decrement key # cs) = key # decremented cs"

subsection \<open>The handler\<close>

text \<open>The metric names (lines 30 to 34, 56, 106 and 119).\<close>

definition workerMetricPrefix :: "app \<Rightarrow> string" where
  "workerMetricPrefix app = hostname app @ ''.'' @ worker_id (conf app)"

definition streamConnectionMetricPrefix :: "app \<Rightarrow> string" where
  "streamConnectionMetricPrefix app = workerMetricPrefix app @ ''.connections.stream''"

definition clientConnectionMetricPrefix :: "app \<Rightarrow> string" where
  "clientConnectionMetricPrefix app = workerMetricPrefix app @ ''.connections.client_ip''"

definition streamConnectionMetric :: "app \<Rightarrow> string \<Rightarrow> string" where
  "streamConnectionMetric app stream = streamConnectionMetricPrefix app @ ''.'' @ stream"

text \<open>The four errors the handler throws (lines 48, 59, 72 and 94).\<close>

definition Missing_Required_X_Client_IP_Header :: HTTPError where
  "Missing_Required_X_Client_IP_Header =
     \<lparr>status = 400, type = ''bad_request'',
      title = ''Missing Required X-Client-IP Header'',
      detail = ''X-Client-IP is a required request header''\<rparr>"

definition Too_Many_Concurrent_Connections :: HTTPError where
  "Too_Many_Concurrent_Connections =
     \<lparr>status = 429, type = ''too_many_requests'',
      title = ''Too Many Concurrent Connections From Your Client IP'',
      detail = ''Your HTTP client is likely opening too many concurrent connections.''\<rparr>"

definition Stream_Not_Found :: "string list \<Rightarrow> HTTPError" where
  "Stream_Not_Found invalidStreams =
     \<lparr>status = 400, type = ''not_found'',
      title = ''Stream Not Found'',
      detail = ''Invalid streams: '' @ join invalidStreams '',''\<rparr>"

definition Invalid_timestamp :: "string \<Rightarrow> HTTPError" where
  "Invalid_timestamp since =
     \<lparr>status = 400, type = ''invalid_timestamp'',
      title = ''Invalid timestamp'',
      detail = ''since timestamp is not a UTC milliseconds unix epoch and was not parseable: ''
               @ [CHR 0x27] @ since @ [CHR 0x27]\<rparr>"

text \<open>
  Lines 44 to 66: the limit of concurrent connections of one client. The result is the
  value of \<^verbatim>\<open>clientConnectionMetric\<close>, which stays undefined when no limit is
  set. A limit of 0 and an empty header are falsy, like absent ones. The counter's
  reading is a number, so \<^verbatim>\<open>|| 0\<close> leaves it as it is.
\<close>

definition clientConnectionMetric_of ::
  "app \<Rightarrow> intervalCounter \<Rightarrow> request \<Rightarrow> thrown + string option" where
  "clientConnectionMetric_of app ic req =
     (case client_ip_connection_limit (conf app) of
        None \<Rightarrow> Inr None
      | Some limit \<Rightarrow>
          if limit = 0 then Inr None
          else (case headers req ''x-client-ip'' of
                  None \<Rightarrow> Inl (Thrown Missing_Required_X_Client_IP_Header)
                | Some ip \<Rightarrow>
                    if ip = [] then Inl (Thrown Missing_Required_X_Client_IP_Header)
                    else (let clientConnectionMetric = clientConnectionMetricPrefix app @ ''.'' @ ip;
                              clientConnectionCount = get ic clientConnectionMetric
                          in if limit \<le> int clientConnectionCount
                             then Inl (Thrown Too_Many_Concurrent_Connections)
                             else Inr (Some clientConnectionMetric))))"

text \<open>Line 70: the requested names that are not \<^verbatim>\<open>in app.conf.streams\<close>.\<close>

definition invalidStreams_of :: "app \<Rightarrow> string list \<Rightarrow> string list" where
  "invalidStreams_of app streams =
     filter (\<lambda>stream. \<not> js_in stream (conf_streams (conf app))) streams"

text \<open>
  Line 81: \<^verbatim>\<open>_.flatMap(streams, stream => app.conf.streams[stream].topics)\<close>.
  \<open>stream_topics\<close> is what one name adds to the result: the elements of the array of
  a configured stream; the single value \<^verbatim>\<open>undefined\<close> for an inherited
  property, which has no \<^verbatim>\<open>topics\<close> and is not an array for
  \<^verbatim>\<open>flatMap\<close> to flatten; for any other name the property read throws.
\<close>

definition stream_topics :: "app \<Rightarrow> string \<Rightarrow> thrown + js_value list" where
  "stream_topics app stream =
     (case conf_streams (conf app) stream of
        Some entry \<Rightarrow> Inr (map JsString (topics entry))
      | None \<Rightarrow> if stream \<in> set Object_prototype then Inr [JsUndefined] else Inl TypeError)"

fun flatMap :: "'a list \<Rightarrow> ('a \<Rightarrow> thrown + 'b list) \<Rightarrow> thrown + 'b list" where
  "flatMap [] f = Inr []"
| "flatMap (x # xs) f =
     (case f x of
        Inl e \<Rightarrow> Inl e
      | Inr ys \<Rightarrow> (case flatMap xs f of Inl e \<Rightarrow> Inl e | Inr zs \<Rightarrow> Inr (ys @ zs)))"

text \<open>
  Lines 86 to 101: \<^verbatim>\<open>atTimestamp\<close>. \<open>truthy\<close> and \<open>isNaN\<close> are the
  language's, on the values \<^verbatim>\<open>atTimestamp\<close> can hold; \<^verbatim>\<open>isNaN(undefined)\<close>
  is true.
\<close>

definition truthy :: "js_value \<Rightarrow> bool" where
  "truthy v = (case v of
       JsUndefined \<Rightarrow> False
     | JsString s \<Rightarrow> s \<noteq> []
     | JsNumber n \<Rightarrow> n \<noteq> NaN \<and> n \<noteq> Finite 0)"

definition isNaN :: "js_value \<Rightarrow> bool" where
  "isNaN v = (case v of
       JsUndefined \<Rightarrow> True
     | JsString s \<Rightarrow> isNaN_string s
     | JsNumber n \<Rightarrow> n = NaN)"

definition query_since_value :: "request \<Rightarrow> js_value" where
  "query_since_value req = (case query_since req of None \<Rightarrow> JsUndefined | Some s \<Rightarrow> JsString s)"

definition Date_parse_value :: "(string \<Rightarrow> int option) \<Rightarrow> js_value \<Rightarrow> js_value" where
  "Date_parse_value impl v = (case v of
       JsString s \<Rightarrow> JsNumber (case Date_parse impl s of None \<Rightarrow> NaN | Some t \<Rightarrow> Finite t)
     | _ \<Rightarrow> JsNumber NaN)"

definition atTimestamp_of :: "(string \<Rightarrow> int option) \<Rightarrow> request \<Rightarrow> thrown + js_value" where
  "atTimestamp_of impl req =
     (let atTimestamp0 = query_since_value req;
          atTimestamp1 = (if truthy atTimestamp0 \<and> isNaN atTimestamp0
                          then Date_parse_value impl atTimestamp0 else atTimestamp0)
      in if atTimestamp1 \<noteq> JsUndefined \<and> isNaN atTimestamp1
         then Inl (Thrown (Invalid_timestamp (case query_since req of None \<Rightarrow> ''undefined'' | Some s \<Rightarrow> s)))
         else Inr atTimestamp1)"

text \<open>Lines 104 to 112: the increments of an admitted connection.\<close>

definition admission_calls :: "app \<Rightarrow> string list \<Rightarrow> string option \<Rightarrow> counter_call list" where
  "admission_calls app streams clientConnectionMetric =
     map (\<lambda>stream. Increment (streamConnectionMetric app stream)) streams
     @ (case clientConnectionMetric of None \<Rightarrow> [] | Some m \<Rightarrow> [Increment m])"

text \<open>
  Lines 116 to 125: the handler of the \<^verbatim>\<open>close\<close> event. It closes over
  \<^verbatim>\<open>streams\<close> and \<^verbatim>\<open>clientConnectionMetric\<close>.
\<close>

definition close_calls :: "app \<Rightarrow> admitted \<Rightarrow> counter_call list" where
  "close_calls app a =
     map (\<lambda>stream. Decrement (streamConnectionMetric app stream)) (close_streams a)
     @ (case close_clientConnectionMetric a of None \<Rightarrow> [] | Some m \<Rightarrow> [Decrement m])"

definition on_close :: "app \<Rightarrow> admitted \<Rightarrow> intervalCounter \<Rightarrow> intervalCounter" where
  "on_close app a ic = foldl perform ic (close_calls app a)"

text \<open>
  The close of the connection. The handler registers one listener, once, for the
  \<^verbatim>\<open>close\<close> event of the response (line 116), and the response emits that event
  when the connection ends, whichever side ended it. The listener takes no argument, so
  the cause of the close does not reach it. \<open>connection_closes\<close> is that one event:
  the calls the listener makes on the counter, and the counter afterwards.
\<close>

datatype close_cause = ClientDisconnect | EngineError | ServerShutdown


text \<open>Lines 129 to 136: the response headers and the framing.\<close>

definition responseHeaders_of :: "request \<Rightarrow> string \<rightharpoonup> string" where
  "responseHeaders_of req =
     (case headers req ''content-type'' of
        None \<Rightarrow> Map.empty
      | Some v \<Rightarrow> [''content-type'' \<mapsto> v])"

definition disableSSEFormatting_of :: "request \<Rightarrow> bool" where
  "disableSSEFormatting_of req =
     (case headers req ''content-type'' of
        None \<Rightarrow> False
      | Some v \<Rightarrow> startsWith v ''application/json'')"

text \<open>
  The handler of \<^verbatim>\<open>GET /stream/:streams\<close> (lines 43 to 162): what it throws or
  the connection it admits, and the counter afterwards.
\<close>

definition stream_route ::
  "app \<Rightarrow> (string \<Rightarrow> int option) \<Rightarrow> intervalCounter \<Rightarrow> request
     \<Rightarrow> (thrown + admitted) \<times> intervalCounter" where
  "stream_route app impl ic req =
     (case clientConnectionMetric_of app ic req of
        Inl e \<Rightarrow> (Inl e, ic)
      | Inr clientConnectionMetric \<Rightarrow>
          (let streams = split (params_streams req) CHR '','';
               invalidStreams = invalidStreams_of app streams
           in if length invalidStreams > 0
              then (Inl (Thrown (Stream_Not_Found invalidStreams)), ic)
              else (case flatMap streams (stream_topics app) of
                      Inl e \<Rightarrow> (Inl e, ic)
                    | Inr topics' \<Rightarrow>
                        (case atTimestamp_of impl req of
                           Inl e \<Rightarrow> (Inl e, ic)
                         | Inr atTimestamp' \<Rightarrow>
                             (Inr \<lparr>handoff =
                                     \<lparr>sse_topics = topics',
                                      allowedTopics = topics',
                                      useTimestampForId = True,
                                      sse_headers = responseHeaders_of req,
                                      disableSSEFormatting = disableSSEFormatting_of req,
                                      atTimestamp = atTimestamp'\<rparr>,
                                   close_streams = streams,
                                   close_clientConnectionMetric = clientConnectionMetric\<rparr>,
                              foldl perform ic
                                (admission_calls app streams clientConnectionMetric))))))"

subsection \<open>Notions of the specification\<close>

text \<open>
  The keys of one connection, in the order of the handler's calls: one for every
  requested name, then the client's when it is defined.
\<close>

definition connection_keys :: "app \<Rightarrow> string list \<Rightarrow> string option \<Rightarrow> string list" where
  "connection_keys app streams clientConnectionMetric =
     map (streamConnectionMetric app) streams
     @ (case clientConnectionMetric of None \<Rightarrow> [] | Some m \<Rightarrow> [m])"

text \<open>The topics the catalog configures for a name; none for a name it does not have.\<close>

definition configured_topics :: "app \<Rightarrow> string \<Rightarrow> string list" where
  "configured_topics app stream =
     (case conf_streams (conf app) stream of None \<Rightarrow> [] | Some entry \<Rightarrow> topics entry)"

text \<open>
  The specification's reading of a base-10 integer: an optional sign and one or more
  decimal digits, with the value they denote.
\<close>

definition spec_base10_integer :: "string \<Rightarrow> int option" where
  "spec_base10_integer raw =
     (if isDecimalDigits (dropSign raw)
      then Some ((if take 1 raw = ''-'' then - 1 else 1) * decimalValue (dropSign raw))
      else None)"

subsection \<open>A configuration and requests to evaluate the handler on\<close>

definition example_app :: app where
  "example_app =
     \<lparr>hostname = ''host'',
      conf = \<lparr>worker_id = ''0'',
              client_ip_connection_limit = Some 2,
              conf_streams =
                [''articles'' \<mapsto> \<lparr>topics = [''topic.articles'']\<rparr>,
                 ''recent'' \<mapsto> \<lparr>topics = [''topic.articles'', ''topic.recent'']\<rparr>]\<rparr>\<rparr>"

definition example_request :: "string \<Rightarrow> string option \<Rightarrow> request" where
  "example_request streams since =
     \<lparr>headers = [''x-client-ip'' \<mapsto> ''10.0.0.1''],
      params_streams = streams,
      query_since = since\<rparr>"

text \<open>An engine whose \<^verbatim>\<open>Date.parse\<close> knows the standard format only.\<close>

definition standard_only :: "string \<Rightarrow> int option" where
  "standard_only s = None"

section \<open>Properties\<close>

subsection \<open>The counter\<close>

lemma get_increment:
  "get (increment ic k) key = (if key = k then get ic k + 1 else get ic key)"
  by (simp add: get_def increment_def)

lemma get_decrement:
  "get (decrement ic k) key = (if key = k then get ic k - 1 else get ic key)"
  by (simp add: get_def decrement_def)

lemma get_foldl_Increment:
  "get (foldl perform ic (map Increment ks)) key = get ic key + count_list ks key"
  by (induction ks arbitrary: ic) (auto simp: get_increment)

lemma get_foldl_Decrement:
  "get (foldl perform ic (map Decrement ks)) key = get ic key - count_list ks key"
  by (induction ks arbitrary: ic) (auto simp: get_decrement)

lemma incremented_map_Increment: "incremented (map Increment ks) = ks"
  by (induction ks) auto

lemma decremented_map_Decrement: "decremented (map Decrement ks) = ks"
  by (induction ks) auto


lemma decremented_map_Increment: "decremented (map Increment ks) = []"
  by (induction ks) auto

subsection \<open>Lists\<close>

lemma count_list_map_inj: "inj f \<Longrightarrow> count_list (map f xs) (f x) = count_list xs x"
  by (induction xs) (auto dest: injD)

lemma count_list_concat:
  "count_list (concat xss) t = sum_list (map (\<lambda>xs. count_list xs t) xss)"
  by (induction xss) auto


lemma startsWith_iff: "startsWith s p \<longleftrightarrow> (\<exists>r. s = p @ r)"
  unfolding startsWith_def
  by (metis append_eq_conv_conj append_take_drop_id)

lemma flatMap_Inr:
  "flatMap xs f = Inr ys \<Longrightarrow> \<exists>yss. map f xs = map Inr yss \<and> ys = concat yss"
proof (induction xs arbitrary: ys)
  case Nil
  then show ?case by simp
next
  case (Cons x xs)
  then obtain y zs where fx: "f x = Inr y" and r: "flatMap xs f = Inr zs" and ys: "ys = y @ zs"
    by (auto split: sum.splits)
  from Cons.IH[OF r] obtain yss where "map f xs = map Inr yss" "zs = concat yss"
    by blast
  with fx ys have "map f (x # xs) = map Inr (y # yss) \<and> ys = concat (y # yss)"
    by simp
  then show ?case by blast
qed

subsection \<open>The metric names\<close>

lemma admission_calls_keys:
  "admission_calls app streams cm = map Increment (connection_keys app streams cm)"
  by (simp add: admission_calls_def connection_keys_def split: option.splits)

lemma close_calls_keys:
  "close_calls app a =
     map Decrement (connection_keys app (close_streams a) (close_clientConnectionMetric a))"
  by (simp add: close_calls_def connection_keys_def split: option.splits)

lemma inj_streamConnectionMetric: "inj (streamConnectionMetric app)"
  by (simp add: inj_def streamConnectionMetric_def)

lemma client_metric_not_stream_metric:
  "clientConnectionMetric_of app ic req = Inr (Some m) \<Longrightarrow> m \<noteq> streamConnectionMetric app s"
  by (auto simp: clientConnectionMetric_of_def streamConnectionMetric_def Let_def
      clientConnectionMetricPrefix_def streamConnectionMetricPrefix_def
      split: option.splits if_splits)

subsection \<open>The timestamp and the topics\<close>

lemma isNaN_string_Nil: "isNaN_string [] = False"
  by (simp add: isNaN_string_def trim_def)

lemma atTimestamp_of_cases:
  "atTimestamp_of impl req =
     (case query_since req of
        None \<Rightarrow> Inr JsUndefined
      | Some raw \<Rightarrow>
          if isNaN_string raw
          then (case Date_parse impl raw of
                  None \<Rightarrow> Inl (Thrown (Invalid_timestamp raw))
                | Some t \<Rightarrow> Inr (JsNumber (Finite t)))
          else Inr (JsString raw))"
  by (auto simp: atTimestamp_of_def query_since_value_def truthy_def isNaN_def Let_def
      Date_parse_value_def isNaN_string_Nil split: option.splits)

lemma digit_not_WhiteSpace: "isDecimalDigit c \<Longrightarrow> \<not> isWhiteSpace c"
  by (auto simp: isDecimalDigit_def isWhiteSpace_def)

lemma dropWhile_none: "\<forall>c\<in>set s. \<not> P c \<Longrightarrow> dropWhile P s = s"
  by (cases s) auto

lemma trim_id: "\<forall>c\<in>set s. \<not> isWhiteSpace c \<Longrightarrow> trim s = s"
  by (simp add: trim_def dropWhile_none)

lemma isUnsignedDecimalLiteral_digits: "isDecimalDigits ds \<Longrightarrow> isUnsignedDecimalLiteral ds"
proof -
  assume "isDecimalDigits ds"
  then have ne: "ds \<noteq> []" and all: "\<forall>x\<in>set ds. isDecimalDigit x"
    by (simp_all add: isDecimalDigits_def list_all_iff)
  from all have tw: "takeWhile isDecimalDigit ds = ds" and dw: "dropWhile isDecimalDigit ds = []"
    by (simp_all add: takeWhile_eq_all_conv)
  show ?thesis
    unfolding isUnsignedDecimalLiteral_def Let_def tw dw using ne by simp
qed

lemma dropSign_cases:
  "dropSign s = s \<or> s = CHR ''+'' # dropSign s \<or> s = CHR ''-'' # dropSign s"
  by (auto simp: dropSign_def split: list.splits)

lemma spec_base10_integer_not_NaN:
  assumes "spec_base10_integer raw = Some n"
  shows "\<not> isNaN_string raw"
proof -
  from assms have d: "isDecimalDigits (dropSign raw)"
    by (simp add: spec_base10_integer_def split: if_splits)
  then have nws: "\<forall>c\<in>set (dropSign raw). \<not> isWhiteSpace c"
    by (simp add: isDecimalDigits_def list_all_iff digit_not_WhiteSpace)
  have sign: "\<not> isWhiteSpace CHR ''+''" "\<not> isWhiteSpace CHR ''-''"
    by (simp_all add: isWhiteSpace_def)
  have "\<forall>c\<in>set raw. \<not> isWhiteSpace c"
  proof -
    consider "dropSign raw = raw" | "raw = CHR ''+'' # dropSign raw" | "raw = CHR ''-'' # dropSign raw"
      using dropSign_cases[of raw] by blast
    then show ?thesis
    proof cases
      case 1 with nws show ?thesis by simp
    next
      case 2
      then have "set raw = insert CHR ''+'' (set (dropSign raw))" by (metis list.simps(15))
      with nws sign show ?thesis by simp
    next
      case 3
      then have "set raw = insert CHR ''-'' (set (dropSign raw))" by (metis list.simps(15))
      with nws sign show ?thesis by simp
    qed
  qed
  then have "trim raw = raw" by (rule trim_id)
  moreover have "isStrDecimalLiteral raw"
    using d by (simp add: isStrDecimalLiteral_def isUnsignedDecimalLiteral_digits)
  ultimately show ?thesis by (simp add: isNaN_string_def)
qed

lemma stream_topics_in:
  "js_in s (conf_streams (conf app)) \<Longrightarrow> \<exists>ts. stream_topics app s = Inr ts"
  by (auto simp: js_in_def stream_topics_def split: option.splits)

lemma flatMap_valid:
  "invalidStreams_of app ss = [] \<Longrightarrow> \<exists>tps. flatMap ss (stream_topics app) = Inr tps"
proof (induction ss)
  case Nil then show ?case by simp
next
  case (Cons s ss)
  then have "js_in s (conf_streams (conf app))" and "invalidStreams_of app ss = []"
    by (auto simp: invalidStreams_of_def split: if_splits)
  with Cons.IH stream_topics_in[of s app] show ?case by auto
qed

lemma clientConnectionMetric_of_no_TypeError: "clientConnectionMetric_of app ic req \<noteq> Inl TypeError"
  by (simp add: clientConnectionMetric_of_def Let_def split: option.splits)

lemma atTimestamp_of_no_TypeError: "atTimestamp_of impl req \<noteq> Inl TypeError"
  by (simp add: atTimestamp_of_cases split: option.splits)

lemma stream_route_no_TypeError: "stream_route app impl ic req \<noteq> (Inl TypeError, ic')"
  using flatMap_valid[of app "split (params_streams req) CHR '',''"]
    clientConnectionMetric_of_no_TypeError[of app ic req] atTimestamp_of_no_TypeError[of impl req]
  unfolding stream_route_def Let_def
  by (auto split: sum.splits if_splits)

lemma flatMap_configured:
  "\<forall>s\<in>set ss. conf_streams (conf app) s \<noteq> None \<Longrightarrow>
   flatMap ss (stream_topics app) = Inr (map JsString (concat (map (configured_topics app) ss)))"
  by (induction ss) (auto simp: stream_topics_def configured_topics_def)

subsection \<open>The two outcomes of the handler\<close>

lemma stream_route_rejected:
  "stream_route app impl ic req = (Inl e, ic') \<Longrightarrow> ic' = ic"
  unfolding stream_route_def Let_def
  by (auto split: sum.splits if_splits)

lemma stream_route_admitted:
  assumes "stream_route app impl ic req = (Inr a, ic')"
  obtains cm tps ts where
    "clientConnectionMetric_of app ic req = Inr cm"
    "invalidStreams_of app (split (params_streams req) CHR '','') = []"
    "flatMap (split (params_streams req) CHR '','') (stream_topics app) = Inr tps"
    "atTimestamp_of impl req = Inr ts"
    "a = \<lparr>handoff = \<lparr>sse_topics = tps, allowedTopics = tps, useTimestampForId = True,
                        sse_headers = responseHeaders_of req,
                        disableSSEFormatting = disableSSEFormatting_of req,
                        atTimestamp = ts\<rparr>,
          close_streams = split (params_streams req) CHR '','',
          close_clientConnectionMetric = cm\<rparr>"
    "ic' = foldl perform ic (admission_calls app (split (params_streams req) CHR '','') cm)"
  using assms unfolding stream_route_def Let_def
  by (auto split: sum.splits if_splits)

lemma flatMap_count:
  "flatMap ss f = Inr ys \<Longrightarrow> f s = Inr ts \<Longrightarrow>
   count_list ss s * count_list ts t \<le> count_list ys t"
proof (induction ss arbitrary: ys)
  case Nil
  then show ?case by simp
next
  case (Cons x xs)
  then obtain y zs where fx: "f x = Inr y" and r: "flatMap xs f = Inr zs" and ys: "ys = y @ zs"
    by (auto split: sum.splits)
  from Cons.IH[OF r Cons.prems(2)] have ih: "count_list xs s * count_list ts t \<le> count_list zs t" .
  show ?case
  proof (cases "x = s")
    case True
    with fx Cons.prems(2) have "y = ts" by simp
    with True ih ys show ?thesis by simp
  next
    case False
    with ih ys show ?thesis by simp
  qed
qed

lemma count_connection_keys_stream:
  assumes "clientConnectionMetric_of app ic req = Inr cm"
  shows "count_list (connection_keys app ss cm) (streamConnectionMetric app s) = count_list ss s"
proof -
  have "count_list (case cm of None \<Rightarrow> [] | Some m \<Rightarrow> [m]) (streamConnectionMetric app s) = 0"
    using client_metric_not_stream_metric[of app ic req _ s] assms
    by (auto split: option.splits)
  then show ?thesis
    by (simp add: connection_keys_def count_list_map_inj[OF inj_streamConnectionMetric])
qed

subsection \<open>Evaluating the handler on the examples\<close>

lemmas example_defs =
  example_app_def example_request_def standard_only_def
  stream_route_def clientConnectionMetric_of_def invalidStreams_of_def js_in_def
  Object_prototype_def stream_topics_def atTimestamp_of_cases
  clientConnectionMetricPrefix_def streamConnectionMetricPrefix_def workerMetricPrefix_def
  streamConnectionMetric_def admission_calls_def responseHeaders_of_def
  disableSSEFormatting_of_def get_def Let_def

text \<open>The handler throws one of its four errors or nothing.\<close>

lemma stream_route_errors:
  assumes "stream_route app impl ic req = (Inl e, ic')"
  shows "e = Thrown Missing_Required_X_Client_IP_Header
       \<or> e = Thrown Too_Many_Concurrent_Connections
       \<or> e = Thrown (Stream_Not_Found (invalidStreams_of app (split (params_streams req) CHR '','')))
       \<or> (\<exists>raw. query_since req = Some raw \<and> e = Thrown (Invalid_timestamp raw))"
proof -
  have c: "clientConnectionMetric_of app ic req = Inl e \<Longrightarrow>
       e = Thrown Missing_Required_X_Client_IP_Header \<or> e = Thrown Too_Many_Concurrent_Connections"
    by (auto simp: clientConnectionMetric_of_def Let_def split: option.splits if_splits)
  have t: "atTimestamp_of impl req = Inl e \<Longrightarrow>
       \<exists>raw. query_since req = Some raw \<and> e = Thrown (Invalid_timestamp raw)"
    by (auto simp: atTimestamp_of_cases split: option.splits if_splits)
  from assms c t flatMap_valid[of app "split (params_streams req) CHR '',''"] show ?thesis
    unfolding stream_route_def Let_def
    by (auto split: sum.splits if_splits)
qed

section \<open>The claims\<close>

text \<open>
  Claim C2. A request that the handler rejects, with any error it can throw, leaves the
  counter as it was: no call of \<open>increment\<close> or \<open>decrement\<close> is made, so the
  reading of every key is the same before and after.
\<close>

theorem rejected_request_leaves_counters:
  assumes "stream_route app impl ic req = (Inl e, ic')"
  shows "ic' = ic \<and> (\<forall>key. get ic' key = get ic key)"
  using stream_route_rejected[OF assms] by simp

theorem rejected_request_leaves_counters_witness:
  "stream_route example_app standard_only [''host.0.connections.stream.articles'' \<mapsto> 3]
     (example_request ''articles,unknownstream'' None)
   = (Inl (Thrown (Stream_Not_Found [''unknownstream''])),
      [''host.0.connections.stream.articles'' \<mapsto> 3])
   \<and> get [''host.0.connections.stream.articles'' \<mapsto> 3] ''host.0.connections.stream.articles'' = 3"
proof -
  let ?ic = "[''host.0.connections.stream.articles'' \<mapsto> 3 :: nat]"
  let ?r = "stream_route example_app standard_only ?ic (example_request ''articles,unknownstream'' None)"
  have f: "fst ?r = Inl (Thrown (Stream_Not_Found [''unknownstream'']))"
    by (simp add: example_defs)
  then have "?r = (Inl (Thrown (Stream_Not_Found [''unknownstream''])), snd ?r)"
    by (metis prod.collapse)
  from rejected_request_leaves_counters[OF this] f show ?thesis
    by (simp add: get_def prod_eq_iff)
qed

text \<open>
  Claim C7. When a limit of connections per client is set (a number other than 0, which
  the handler treats like no limit) and the request has no header
  \<^verbatim>\<open>x-client-ip\<close>, the handler throws the error of the missing header whatever
  the requested streams and the parameter \<^verbatim>\<open>since\<close> are, and the counter is
  untouched.
\<close>

theorem missing_client_identity_rejected:
  assumes "client_ip_connection_limit (conf app) = Some limit" and "limit \<noteq> 0"
    and "headers req ''x-client-ip'' = None"
  shows "stream_route app impl ic (req\<lparr>params_streams := streams, query_since := since\<rparr>)
         = (Inl (Thrown Missing_Required_X_Client_IP_Header), ic)"
  using assms by (simp add: stream_route_def clientConnectionMetric_of_def)

theorem missing_client_identity_rejected_witness:
  "stream_route example_app standard_only Map.empty
     \<lparr>headers = Map.empty, params_streams = ''articles'', query_since = Some ''1600000000000''\<rparr>
   = (Inl (Thrown Missing_Required_X_Client_IP_Header), Map.empty)
   \<and> stream_route example_app standard_only Map.empty
     \<lparr>headers = Map.empty, params_streams = ''unknownstream'', query_since = Some ''not-a-real-date''\<rparr>
   = (Inl (Thrown Missing_Required_X_Client_IP_Header), Map.empty)"
  using missing_client_identity_rejected[where app = example_app and limit = 2
      and req = "\<lparr>headers = Map.empty, params_streams = [], query_since = None\<rparr>"
      and impl = standard_only and ic = Map.empty
      and streams = "''articles''" and since = "Some ''1600000000000''"]
    missing_client_identity_rejected[where app = example_app and limit = 2
      and req = "\<lparr>headers = Map.empty, params_streams = [], query_since = None\<rparr>"
      and impl = standard_only and ic = Map.empty
      and streams = "''unknownstream''" and since = "Some ''not-a-real-date''"]
  by (simp add: example_app_def)

text \<open>
  Claim C5. When a limit \<open>L\<close> of connections per client is set (a number other than
  0) and the counter of the requesting client reads at least \<open>L\<close>, the handler
  throws the error with status 429 and the counter, so also the reading of that client,
  is what it was.
\<close>

theorem client_limit_enforced:
  assumes "client_ip_connection_limit (conf app) = Some limit" and "limit \<noteq> 0"
    and "headers req ''x-client-ip'' = Some ip" and "ip \<noteq> []"
    and "limit \<le> int (get ic (clientConnectionMetricPrefix app @ ''.'' @ ip))"
  shows "stream_route app impl ic req = (Inl (Thrown Too_Many_Concurrent_Connections), ic)
       \<and> status Too_Many_Concurrent_Connections = 429
       \<and> get (snd (stream_route app impl ic req)) (clientConnectionMetricPrefix app @ ''.'' @ ip)
         = get ic (clientConnectionMetricPrefix app @ ''.'' @ ip)"
  using assms
  by (simp add: stream_route_def clientConnectionMetric_of_def Too_Many_Concurrent_Connections_def)

theorem client_limit_enforced_witness:
  "stream_route example_app standard_only [''host.0.connections.client_ip.10.0.0.1'' \<mapsto> 2]
     (example_request ''articles'' None)
   = (Inl (Thrown Too_Many_Concurrent_Connections), [''host.0.connections.client_ip.10.0.0.1'' \<mapsto> 2])
   \<and> get (snd (stream_route example_app standard_only [''host.0.connections.client_ip.10.0.0.1'' \<mapsto> 2]
     (example_request ''articles'' None))) ''host.0.connections.client_ip.10.0.0.1'' = 2"
  using client_limit_enforced[where app = example_app and limit = 2
      and req = "example_request ''articles'' None" and ip = "''10.0.0.1''"
      and ic = "[''host.0.connections.client_ip.10.0.0.1'' \<mapsto> 2]" and impl = standard_only]
  by (simp add: example_app_def example_request_def clientConnectionMetricPrefix_def
      workerMetricPrefix_def get_def)

text \<open>
  Claim C9. For an admitted request the formatting of server-sent events is disabled if
  and only if the request has a header \<^verbatim>\<open>content-type\<close> whose value starts
  with \<^verbatim>\<open>application/json\<close>; with no such header, or any other value, it stays
  enabled.
\<close>

theorem framing_from_content_type:
  assumes "stream_route app impl ic req = (Inr a, ic')"
  shows "disableSSEFormatting (handoff a)
         \<longleftrightarrow> (\<exists>v rest. headers req ''content-type'' = Some v \<and> v = ''application/json'' @ rest)"
proof -
  from assms have "disableSSEFormatting (handoff a) = disableSSEFormatting_of req"
    by (rule stream_route_admitted) simp
  then show ?thesis
    by (auto simp: disableSSEFormatting_of_def startsWith_iff split: option.splits)
qed


theorem framing_from_content_type_witness:
  "(case fst (stream_route example_app standard_only Map.empty
        ((example_request ''articles'' None)
           \<lparr>headers := [''x-client-ip'' \<mapsto> ''10.0.0.1'',
                        ''content-type'' \<mapsto> ''application/json; charset=utf-8'']\<rparr>)) of
      Inl e \<Rightarrow> False
    | Inr a \<Rightarrow> disableSSEFormatting (handoff a))
   \<and> (case fst (stream_route example_app standard_only Map.empty
        ((example_request ''articles'' None)
           \<lparr>headers := [''x-client-ip'' \<mapsto> ''10.0.0.1'',
                        ''content-type'' \<mapsto> ''text/event-stream'']\<rparr>)) of
      Inl e \<Rightarrow> False
    | Inr a \<Rightarrow> \<not> disableSSEFormatting (handoff a))"
proof -
  let ?json = "(example_request ''articles'' None)
           \<lparr>headers := [''x-client-ip'' \<mapsto> ''10.0.0.1'',
                        ''content-type'' \<mapsto> ''application/json; charset=utf-8'']\<rparr>"
  let ?sse = "(example_request ''articles'' None)
           \<lparr>headers := [''x-client-ip'' \<mapsto> ''10.0.0.1'',
                        ''content-type'' \<mapsto> ''text/event-stream'']\<rparr>"
  obtain a ic' where j: "stream_route example_app standard_only Map.empty ?json = (Inr a, ic')"
    by (simp add: example_defs)
  obtain b ic'' where s: "stream_route example_app standard_only Map.empty ?sse = (Inr b, ic'')"
    by (simp add: example_defs)
  have "disableSSEFormatting (handoff a)"
    using framing_from_content_type[OF j] by (simp add: example_request_def)
  moreover have "\<not> disableSSEFormatting (handoff b)"
    using framing_from_content_type[OF s] by (simp add: example_request_def)
  ultimately show ?thesis using j s by simp
qed

text \<open>
  Claim C10. When a name occurs \<open>k\<close> times in the list of requested streams, admission
  increments the key of that stream \<open>k\<close> times, the handler of the close event
  decrements it \<open>k\<close> times, and every topic of the stream occurs in the list of topics
  handed to \<^verbatim>\<open>kafkaSse\<close> \<open>k\<close> times as often as in the stream's own list (more
  often only when another requested stream has the topic too).
\<close>

theorem duplicate_names_counted_each_time:
  assumes "stream_route app impl ic req = (Inr a, ic')"
    and "count_list (split (params_streams req) CHR '','') stream = k"
  shows "ic' = foldl perform ic (admission_calls app (close_streams a) (close_clientConnectionMetric a))
       \<and> count_list (incremented (admission_calls app (close_streams a) (close_clientConnectionMetric a)))
           (streamConnectionMetric app stream) = k
       \<and> get ic' (streamConnectionMetric app stream) = get ic (streamConnectionMetric app stream) + k
       \<and> count_list (decremented (close_calls app a)) (streamConnectionMetric app stream) = k
       \<and> (\<forall>ic2. get (on_close app a ic2) (streamConnectionMetric app stream)
                 = get ic2 (streamConnectionMetric app stream) - k)
       \<and> (\<forall>ts t. stream_topics app stream = Inr ts
             \<longrightarrow> k * count_list ts t \<le> count_list (sse_topics (handoff a)) t)"
proof -
  from assms(1) obtain cm tps where
    cm: "clientConnectionMetric_of app ic req = Inr cm"
    and tps: "flatMap (split (params_streams req) CHR '','') (stream_topics app) = Inr tps"
    and a: "sse_topics (handoff a) = tps" "close_streams a = split (params_streams req) CHR '',''"
      "close_clientConnectionMetric a = cm"
    and ic': "ic' = foldl perform ic (admission_calls app (split (params_streams req) CHR '','') cm)"
    by (rule stream_route_admitted) simp
  have c: "count_list (connection_keys app (split (params_streams req) CHR '','') cm)
             (streamConnectionMetric app stream) = k"
    using count_connection_keys_stream[OF cm] assms(2) by simp
  have 1: "ic' = foldl perform ic (admission_calls app (close_streams a) (close_clientConnectionMetric a))"
    using ic' a by simp
  have 2: "count_list (incremented (admission_calls app (close_streams a) (close_clientConnectionMetric a)))
           (streamConnectionMetric app stream) = k"
    using c a by (simp add: admission_calls_keys incremented_map_Increment)
  have 3: "get ic' (streamConnectionMetric app stream) = get ic (streamConnectionMetric app stream) + k"
    using c ic' by (simp add: admission_calls_keys get_foldl_Increment)
  have 4: "count_list (decremented (close_calls app a)) (streamConnectionMetric app stream) = k"
    using c a by (simp add: close_calls_keys decremented_map_Decrement)
  have 5: "\<forall>ic2. get (on_close app a ic2) (streamConnectionMetric app stream)
                 = get ic2 (streamConnectionMetric app stream) - k"
    using c a by (simp add: on_close_def close_calls_keys get_foldl_Decrement)
  have 6: "\<forall>ts t. stream_topics app stream = Inr ts
             \<longrightarrow> k * count_list ts t \<le> count_list (sse_topics (handoff a)) t"
    using flatMap_count[OF tps] assms(2) a by auto
  from 1 2 3 4 5 6 show ?thesis by blast
qed

theorem duplicate_names_counted_each_time_witness:
  "count_list (split ''articles,articles'' CHR '','') ''articles'' = 2
   \<and> (case stream_route example_app standard_only Map.empty
             (example_request ''articles,articles'' None) of
        (Inl e, ic') \<Rightarrow> False
      | (Inr a, ic') \<Rightarrow>
          get ic' ''host.0.connections.stream.articles'' = 2
          \<and> count_list (decremented (close_calls example_app a))
               ''host.0.connections.stream.articles'' = 2
          \<and> get (on_close example_app a ic') ''host.0.connections.stream.articles'' = 0
          \<and> 2 \<le> count_list (sse_topics (handoff a)) (JsString ''topic.articles''))"
proof -
  let ?req = "example_request ''articles,articles'' None"
  have k: "count_list (split (params_streams ?req) CHR '','') ''articles'' = 2"
    by (simp add: example_request_def)
  obtain a ic' where r: "stream_route example_app standard_only Map.empty ?req = (Inr a, ic')"
    by (simp add: example_defs)
  have key: "streamConnectionMetric example_app ''articles'' = ''host.0.connections.stream.articles''"
    by (simp add: example_defs)
  have ts: "stream_topics example_app ''articles'' = Inr [JsString ''topic.articles'']"
    by (simp add: example_defs)
  note d = duplicate_names_counted_each_time[OF r k, unfolded key]
  have e: "get Map.empty ''host.0.connections.stream.articles'' = 0"
    by (simp add: get_def)
  from d have "get ic' ''host.0.connections.stream.articles''
                 = get Map.empty ''host.0.connections.stream.articles'' + 2"
    by blast
  with e have 1: "get ic' ''host.0.connections.stream.articles'' = 2"
    by simp
  from d have 2: "count_list (decremented (close_calls example_app a))
               ''host.0.connections.stream.articles'' = 2"
    by blast
  from d have "get (on_close example_app a ic') ''host.0.connections.stream.articles''
                 = get ic' ''host.0.connections.stream.articles'' - 2"
    by blast
  with 1 have 3: "get (on_close example_app a ic') ''host.0.connections.stream.articles'' = 0"
    by simp
  from d ts have "2 * count_list [JsString ''topic.articles''] (JsString ''topic.articles'')
                   \<le> count_list (sse_topics (handoff a)) (JsString ''topic.articles'')"
    by blast
  then have 4: "2 \<le> count_list (sse_topics (handoff a)) (JsString ''topic.articles'')"
    by simp
  note 1 2 3 4
  with r k show ?thesis by (simp add: example_request_def)
qed



text \<open>
  Claim C3, as stated: the topics handed to \<^verbatim>\<open>kafkaSse\<close> are the union of the
  topics of the requested streams with no topic twice. It fails for two requested
  streams that share a topic: the topic is handed over twice.
\<close>

theorem topics_deduplicated_counterexample:
  "(case stream_route example_app standard_only Map.empty
             (example_request ''articles,recent'' None) of
        (Inl e, ic') \<Rightarrow> False
      | (Inr a, ic') \<Rightarrow>
          sse_topics (handoff a)
            = [JsString ''topic.articles'', JsString ''topic.articles'', JsString ''topic.recent'']
          \<and> \<not> distinct (sse_topics (handoff a)))"
  by (simp add: example_defs)

text \<open>
  Claim C3, amended. For an admitted request whose names are all configured in the
  catalog, the topics handed to \<^verbatim>\<open>kafkaSse\<close> (as \<^verbatim>\<open>topics\<close> and as
  \<^verbatim>\<open>allowedTopics\<close>) are the topic lists of the requested names, one after the
  other in the order of the request; the set of their elements is the union of the
  topics of the requested names. Nothing removes a topic that occurs more than once.
\<close>

theorem topics_concatenated:
  assumes "stream_route app impl ic req = (Inr a, ic')"
    and "\<forall>stream \<in> set (split (params_streams req) CHR '',''). conf_streams (conf app) stream \<noteq> None"
  shows "sse_topics (handoff a)
           = map JsString (concat (map (configured_topics app) (split (params_streams req) CHR '','')))
       \<and> allowedTopics (handoff a) = sse_topics (handoff a)
       \<and> set (sse_topics (handoff a))
           = JsString ` (\<Union>stream \<in> set (split (params_streams req) CHR '','').
                           set (configured_topics app stream))"
proof -
  from assms(1) obtain tps where
    tps: "flatMap (split (params_streams req) CHR '','') (stream_topics app) = Inr tps"
    and a: "sse_topics (handoff a) = tps" "allowedTopics (handoff a) = tps"
    by (rule stream_route_admitted) simp
  from tps flatMap_configured[OF assms(2)]
  have "tps = map JsString (concat (map (configured_topics app) (split (params_streams req) CHR '','')))"
    by simp
  with a show ?thesis by simp
qed

theorem topics_concatenated_witness:
  "(case stream_route example_app standard_only Map.empty
             (example_request ''recent,articles'' None) of
        (Inl e, ic') \<Rightarrow> False
      | (Inr a, ic') \<Rightarrow>
          sse_topics (handoff a)
            = [JsString ''topic.articles'', JsString ''topic.recent'', JsString ''topic.articles'']
          \<and> set (sse_topics (handoff a)) = {JsString ''topic.articles'', JsString ''topic.recent''})"
proof -
  let ?req = "example_request ''recent,articles'' None"
  obtain a ic' where r: "stream_route example_app standard_only Map.empty ?req = (Inr a, ic')"
    by (simp add: example_defs)
  have s: "split (params_streams ?req) CHR '','' = [''recent'', ''articles'']"
    by (simp add: example_request_def)
  have c: "\<forall>stream \<in> set (split (params_streams ?req) CHR '','').
             conf_streams (conf example_app) stream \<noteq> None"
    unfolding s by (simp add: example_app_def)
  have t: "configured_topics example_app ''recent'' = [''topic.articles'', ''topic.recent'']"
    "configured_topics example_app ''articles'' = [''topic.articles'']"
    by (simp_all add: configured_topics_def example_app_def)
  from topics_concatenated[OF r c, unfolded s]
  have "sse_topics (handoff a)
            = [JsString ''topic.articles'', JsString ''topic.recent'', JsString ''topic.articles'']"
    by (simp add: t)
  with r show ?thesis by auto
qed

text \<open>
  Claim C6: a request that names a stream absent from the catalog is rejected with the
  error that lists the absent names. The handler tests \<^verbatim>\<open>stream in
  app.conf.streams\<close>, which also holds for the names the catalog object inherits: the
  request for \<^verbatim>\<open>articles,toString\<close> is admitted, \<^verbatim>\<open>undefined\<close> is handed on
  as a topic and a counter for \<^verbatim>\<open>toString\<close> is incremented. The request for
  \<^verbatim>\<open>articles,unknownstream\<close> is rejected, and the detail names
  \<^verbatim>\<open>unknownstream\<close> only.
\<close>

theorem inherited_name_passes_stream_check:
  "conf_streams (conf example_app) ''toString'' = None
   \<and> (case stream_route example_app standard_only Map.empty
             (example_request ''articles,toString'' None) of
        (Inl e, ic') \<Rightarrow> False
      | (Inr a, ic') \<Rightarrow>
          sse_topics (handoff a) = [JsString ''topic.articles'', JsUndefined]
          \<and> get ic' ''host.0.connections.stream.toString'' = 1)
   \<and> stream_route example_app standard_only Map.empty
             (example_request ''articles,unknownstream'' None)
       = (Inl (Thrown (Stream_Not_Found [''unknownstream''])), Map.empty)
   \<and> detail (Stream_Not_Found [''unknownstream'']) = ''Invalid streams: unknownstream''"
  by (simp add: example_defs increment_def Stream_Not_Found_def)

text \<open>
  What the check of the stream names does: once the check of the client has passed, the
  handler throws the error of the unknown streams exactly when some requested name is
  neither configured nor inherited, and the error lists those names in the order of the
  request.
\<close>

lemma invalidStreams_of_eq:
  "invalidStreams_of app streams
     = filter (\<lambda>stream. conf_streams (conf app) stream = None \<and> stream \<notin> set Object_prototype)
         streams"
  by (simp add: invalidStreams_of_def js_in_def)

lemma unknown_names_rejected:
  assumes "clientConnectionMetric_of app ic req = Inr cm"
    and "invalidStreams_of app (split (params_streams req) CHR '','') \<noteq> []"
  shows "stream_route app impl ic req
         = (Inl (Thrown (Stream_Not_Found
                   (invalidStreams_of app (split (params_streams req) CHR '','')))), ic)"
  using assms by (simp add: stream_route_def)

lemma admitted_names_valid:
  assumes "stream_route app impl ic req = (Inr a, ic')"
  shows "invalidStreams_of app (split (params_streams req) CHR '','') = []"
  using assms by (rule stream_route_admitted)

text \<open>
  Claim C4: a parameter \<^verbatim>\<open>since\<close> that is present and parses neither as a
  base-10 integer nor as a date is rejected with the error of the invalid timestamp,
  whose detail repeats it. The handler decides with \<^verbatim>\<open>isNaN(atTimestamp)\<close>,
  which converts the string to a number first: one blank and the empty string convert
  to 0, and \<^verbatim>\<open>Infinity\<close> to infinity. None of the three is an integer or a
  date, yet the handler takes each for a timestamp, skips \<^verbatim>\<open>Date.parse\<close>,
  throws nothing and hands the string to \<^verbatim>\<open>kafkaSse\<close>; its comment at lines
  91 and 92 says that a value that is defined and still not a number of milliseconds
  is rejected. The parameter \<^verbatim>\<open>not-a-real-date\<close> is rejected, and the detail
  repeats it.
\<close>

theorem blank_since_admitted:
  "spec_base10_integer '' '' = None
   \<and> Date_parse standard_only '' '' = None
   \<and> (case stream_route example_app standard_only Map.empty
             (example_request ''articles'' (Some '' '')) of
        (Inl e, ic') \<Rightarrow> False
      | (Inr a, ic') \<Rightarrow> atTimestamp (handoff a) = JsString '' '')
   \<and> spec_base10_integer '''' = None
   \<and> Date_parse standard_only '''' = None
   \<and> (case stream_route example_app standard_only Map.empty
             (example_request ''articles'' (Some '''')) of
        (Inl e, ic') \<Rightarrow> False
      | (Inr a, ic') \<Rightarrow> atTimestamp (handoff a) = JsString '''')
   \<and> spec_base10_integer ''Infinity'' = None
   \<and> Date_parse standard_only ''Infinity'' = None
   \<and> (case stream_route example_app standard_only Map.empty
             (example_request ''articles'' (Some ''Infinity'')) of
        (Inl e, ic') \<Rightarrow> False
      | (Inr a, ic') \<Rightarrow> atTimestamp (handoff a) = JsString ''Infinity'')
   \<and> stream_route example_app standard_only Map.empty
         (example_request ''articles'' (Some ''not-a-real-date''))
       = (Inl (Thrown (Invalid_timestamp ''not-a-real-date'')), Map.empty)
   \<and> detail (Invalid_timestamp ''not-a-real-date'')
       = ''since timestamp is not a UTC milliseconds unix epoch and was not parseable: ''
         @ [CHR 0x27] @ ''not-a-real-date'' @ [CHR 0x27]"
  by (simp add: example_defs spec_base10_integer_def dropSign_def isDecimalDigits_def
      isDecimalDigit_def Date_parse_def isoTimeValue_def isoDate_def isDigitsOfLength_def
      isNaN_string_def trim_def isWhiteSpace_def isStrDecimalLiteral_def
      isUnsignedDecimalLiteral_def isNonDecimalIntegerLiteral_def Invalid_timestamp_def)

text \<open>
  What the timestamp block does. It throws exactly when \<^verbatim>\<open>since\<close> is present,
  its conversion to a number is NaN and \<^verbatim>\<open>Date.parse\<close> gives NaN for it; the
  error is then the one of the invalid timestamp, whose detail ends with the raw string
  in quotes, and a request that has passed the checks of the client and of the streams
  is rejected with it, the counter untouched. In every other case the block throws
  nothing: it hands on \<^verbatim>\<open>undefined\<close> for an absent parameter, the number of
  \<^verbatim>\<open>Date.parse\<close> for one that is not a number, and the string itself otherwise
  (lemma \<open>atTimestamp_of_cases\<close>).
\<close>

lemma atTimestamp_of_throws_iff:
  "(atTimestamp_of impl req = Inl e
      \<longleftrightarrow> (\<exists>raw. query_since req = Some raw \<and> isNaN_string raw \<and> Date_parse impl raw = None
                 \<and> e = Thrown (Invalid_timestamp raw)))
   \<and> detail (Invalid_timestamp raw)
       = ''since timestamp is not a UTC milliseconds unix epoch and was not parseable: ''
         @ [CHR 0x27] @ raw @ [CHR 0x27]
   \<and> ((\<exists>cm. clientConnectionMetric_of app ic req = Inr cm)
        \<and> invalidStreams_of app (split (params_streams req) CHR '','') = []
        \<and> atTimestamp_of impl req = Inl e
      \<longrightarrow> stream_route app impl ic req = (Inl e, ic))"
proof -
  have 1: "atTimestamp_of impl req = Inl e
      \<longleftrightarrow> (\<exists>raw. query_since req = Some raw \<and> isNaN_string raw \<and> Date_parse impl raw = None
                 \<and> e = Thrown (Invalid_timestamp raw))"
    by (auto simp: atTimestamp_of_cases split: option.splits)
  have 2: "detail (Invalid_timestamp raw)
       = ''since timestamp is not a UTC milliseconds unix epoch and was not parseable: ''
         @ [CHR 0x27] @ raw @ [CHR 0x27]"
    by (simp add: Invalid_timestamp_def)
  have 3: "(\<exists>cm. clientConnectionMetric_of app ic req = Inr cm)
        \<and> invalidStreams_of app (split (params_streams req) CHR '','') = []
        \<and> atTimestamp_of impl req = Inl e
      \<longrightarrow> stream_route app impl ic req = (Inl e, ic)"
    using flatMap_valid[of app "split (params_streams req) CHR '',''"]
    by (auto simp: stream_route_def)
  from 1 2 3 show ?thesis by blast
qed

text \<open>The two timestamps of the specification's scenarios.\<close>

lemma scenario_C: "spec_base10_integer ''1600000000000'' = Some 1600000000000"
  by (simp add: spec_base10_integer_def dropSign_def isDecimalDigits_def isDecimalDigit_def
      decimalValue_def digitValue_def)

lemma scenario_D_NaN: "isNaN_string ''2020-09-13T12:26:40Z''"
  by (simp add: isNaN_string_def trim_def isWhiteSpace_def isStrDecimalLiteral_def
        dropSign_def isUnsignedDecimalLiteral_def isDecimalDigit_def
        isNonDecimalIntegerLiteral_def isExponentPart_def)

lemma scenario_D_time: "isoTimeValue ''2020-09-13T12:26:40Z'' = Some 1600000000000"
  by code_simp

text \<open>
  Claim C8. The value of \<^verbatim>\<open>atTimestamp\<close> handed to \<^verbatim>\<open>kafkaSse\<close> is the
  one the timestamp block computes. With no parameter \<^verbatim>\<open>since\<close> it is
  \<^verbatim>\<open>undefined\<close>. For a parameter that is a base-10 integer it is the parameter
  itself, unchanged (the string of the query, which the handler does not convert). For
  a parameter that is not a number and that \<^verbatim>\<open>Date.parse\<close> parses, it is the
  number of milliseconds \<^verbatim>\<open>Date.parse\<close> returns. \<^verbatim>\<open>1600000000000\<close> is
  such an integer, and \<^verbatim>\<open>2020-09-13T12:26:40Z\<close> is not a number and parses to
  1600000000000 in every engine.
\<close>

theorem resume_hint:
  "(stream_route app impl ic req = (Inr a, ic')
      \<longrightarrow> atTimestamp_of impl req = Inr (atTimestamp (handoff a)))
   \<and> (query_since req = None \<longrightarrow> atTimestamp_of impl req = Inr JsUndefined)
   \<and> (query_since req = Some raw \<and> spec_base10_integer raw = Some n
        \<longrightarrow> atTimestamp_of impl req = Inr (JsString raw))
   \<and> (query_since req = Some raw \<and> isNaN_string raw \<and> Date_parse impl raw = Some t
        \<longrightarrow> atTimestamp_of impl req = Inr (JsNumber (Finite t)))
   \<and> spec_base10_integer ''1600000000000'' = Some 1600000000000
   \<and> isNaN_string ''2020-09-13T12:26:40Z''
   \<and> Date_parse impl ''2020-09-13T12:26:40Z'' = Some 1600000000000"
proof -
  have 1: "stream_route app impl ic req = (Inr a, ic')
      \<longrightarrow> atTimestamp_of impl req = Inr (atTimestamp (handoff a))"
  proof
    assume "stream_route app impl ic req = (Inr a, ic')"
    then show "atTimestamp_of impl req = Inr (atTimestamp (handoff a))"
      by (rule stream_route_admitted) simp
  qed
  have 2: "query_since req = None \<longrightarrow> atTimestamp_of impl req = Inr JsUndefined"
    by (simp add: atTimestamp_of_cases)
  have 3: "query_since req = Some raw \<and> spec_base10_integer raw = Some n
        \<longrightarrow> atTimestamp_of impl req = Inr (JsString raw)"
    using spec_base10_integer_not_NaN[of raw n] by (auto simp: atTimestamp_of_cases)
  have 4: "query_since req = Some raw \<and> isNaN_string raw \<and> Date_parse impl raw = Some t
        \<longrightarrow> atTimestamp_of impl req = Inr (JsNumber (Finite t))"
    by (simp add: atTimestamp_of_cases)
  have 5: "Date_parse impl ''2020-09-13T12:26:40Z'' = Some 1600000000000"
    by (simp add: Date_parse_def scenario_D_time)
  from 1 2 3 4 5 scenario_C scenario_D_NaN show ?thesis by blast
qed

theorem resume_hint_witness:
  "(case stream_route example_app standard_only Map.empty
             (example_request ''articles'' (Some ''1600000000000'')) of
        (Inl e, ic') \<Rightarrow> False
      | (Inr a, ic') \<Rightarrow> atTimestamp (handoff a) = JsString ''1600000000000'')
   \<and> (case stream_route example_app standard_only Map.empty
             (example_request ''articles'' (Some ''2020-09-13T12:26:40Z'')) of
        (Inl e, ic') \<Rightarrow> False
      | (Inr a, ic') \<Rightarrow> atTimestamp (handoff a) = JsNumber (Finite 1600000000000))
   \<and> (case stream_route example_app standard_only Map.empty
             (example_request ''articles'' None) of
        (Inl e, ic') \<Rightarrow> False
      | (Inr a, ic') \<Rightarrow> atTimestamp (handoff a) = JsUndefined)"
proof -
  let ?C = "example_request ''articles'' (Some ''1600000000000'')"
  let ?D = "example_request ''articles'' (Some ''2020-09-13T12:26:40Z'')"
  let ?N = "example_request ''articles'' None"
  have adm: "\<And>since. atTimestamp_of standard_only (example_request ''articles'' since) = Inr ts
     \<Longrightarrow> \<exists>a ic'. stream_route example_app standard_only Map.empty
                   (example_request ''articles'' since) = (Inr a, ic')" for ts
    by (simp add: example_app_def example_request_def
      stream_route_def clientConnectionMetric_of_def invalidStreams_of_def js_in_def
      stream_topics_def clientConnectionMetricPrefix_def workerMetricPrefix_def get_def Let_def)
  have q: "query_since ?C = Some ''1600000000000''" "query_since ?D = Some ''2020-09-13T12:26:40Z''"
    "query_since ?N = None"
    by (simp_all add: example_request_def)
  note c = resume_hint[where impl = standard_only and req = ?C and raw = "''1600000000000''"
      and n = 1600000000000 and app = example_app and ic = Map.empty]
  note d = resume_hint[where impl = standard_only and req = ?D and raw = "''2020-09-13T12:26:40Z''"
      and t = 1600000000000 and app = example_app and ic = Map.empty]
  note n = resume_hint[where impl = standard_only and req = ?N and app = example_app and ic = Map.empty]
  from c q have tc: "atTimestamp_of standard_only ?C = Inr (JsString ''1600000000000'')"
    by blast
  from d q have td: "atTimestamp_of standard_only ?D = Inr (JsNumber (Finite 1600000000000))"
    by blast
  from n q have tn: "atTimestamp_of standard_only ?N = Inr JsUndefined"
    by blast
  from adm[OF tc] obtain a ia where ra: "stream_route example_app standard_only Map.empty ?C = (Inr a, ia)"
    by blast
  from adm[OF td] obtain b ib where rb: "stream_route example_app standard_only Map.empty ?D = (Inr b, ib)"
    by blast
  from adm[OF tn] obtain e ie where re: "stream_route example_app standard_only Map.empty ?N = (Inr e, ie)"
    by blast
  from c ra tc have "atTimestamp (handoff a) = JsString ''1600000000000''"
    by (metis sum.inject(2))
  moreover from d rb td have "atTimestamp (handoff b) = JsNumber (Finite 1600000000000)"
    by (metis sum.inject(2))
  moreover from n re tn have "atTimestamp (handoff e) = JsUndefined"
    by (metis sum.inject(2))
  ultimately show ?thesis using ra rb re by simp
qed

end
